theory Spec2Isabelle
  imports Complex_Main "HOL-Library.Word"
begin

unbundle bit_operations_syntax

section \<open>Data model\<close>

text \<open>
  The Go source works on three kinds of numbers.  Terminal sizes, requested sizes and image
  bounds are Go \<open>int\<close>s; they are modelled as \<open>int\<close>: terminal sizes come from a 16-bit
  window-size query and image bounds describe images held in memory, far inside the range
  where 64-bit arithmetic does not wrap and where the conversion to \<open>float64\<close> is exact.
  Colour channels are \<open>uint8\<close> and \<open>uint32\<close>, modelled as words, because the sampler's
  arithmetic (shifts, products, divisions) depends on their width.
\<close>

type_synonym uint8 = "8 word"
type_synonym uint32 = "32 word"

text \<open>\<open>color.NRGBA\<close>: the pixel type of the images that \<open>imaging.Resize\<close> returns.\<close>

record nrgba =
  cR :: uint8
  cG :: uint8
  cB :: uint8
  cA :: uint8

text \<open>\<open>image.Rectangle\<close>, with the two corner points written out.\<close>

record rectangle =
  MinX :: int
  MinY :: int
  MaxX :: int
  MaxY :: int

text \<open>An \<open>*image.NRGBA\<close> as the code uses it: its bounds and its pixel access \<open>At(x, y)\<close>.\<close>

record image =
  Bounds :: rectangle
  At :: "int \<Rightarrow> int \<Rightarrow> nrgba"

record AsciiPixel =
  charDepth :: uint32
  grayscaleValue :: "uint32 \<times> uint32 \<times> uint32"
  rgbValue :: "uint32 \<times> uint32 \<times> uint32"

text \<open>
  What a call can end with other than a grid: an \<open>error\<close> value carrying its message
  (\<open>fmt.Errorf\<close>, or the error of the terminal-size query passed on), or the run-time panic
  of indexing a slice out of range.
\<close>

datatype failure = Errorf string | IndexOutOfRange

section \<open>Colour conversions of the Go standard library\<close>

text \<open>\<open>color.NRGBA.RGBA()\<close>: alpha-premultiplied 16-bit channels in 32-bit words.\<close>

definition premultiply :: "uint8 \<Rightarrow> uint8 \<Rightarrow> uint32" where
  "premultiply v a =
     (let r = (ucast v :: uint32);
          r = r OR push_bit 8 r;
          r = r * ucast a;
          r = r div 0xff
      in r)"

definition NRGBA_RGBA :: "nrgba \<Rightarrow> uint32 \<times> uint32 \<times> uint32 \<times> uint32" where
  "NRGBA_RGBA c =
     (let r = premultiply (cR c) (cA c);
          g = premultiply (cG c) (cA c);
          b = premultiply (cB c) (cA c);
          a = (ucast (cA c) :: uint32);
          a = a OR push_bit 8 a
      in (r, g, b, a))"

text \<open>\<open>color.GrayModel.Convert\<close> on a colour that is not already \<open>color.Gray\<close>: the luma \<open>Y\<close>.\<close>

definition grayModel :: "nrgba \<Rightarrow> uint8" where
  "grayModel c =
     (case NRGBA_RGBA c of (r, g, b, _) \<Rightarrow>
        let y = drop_bit 24 (19595 * r + 38470 * g + 7471 * b + push_bit 15 1)
        in (ucast y :: uint8))"

text \<open>\<open>color.Gray.RGBA()\<close>.\<close>

definition Gray_RGBA :: "uint8 \<Rightarrow> uint32 \<times> uint32 \<times> uint32 \<times> uint32" where
  "Gray_RGBA Y =
     (let y = (ucast Y :: uint32);
          y = y OR push_bit 8 y
      in (y, y, y, 0xffff))"

section \<open>The pixel sampler\<close>

text \<open>The body of the inner loop of \<open>ConvertToAsciiPixels\<close>: one pixel to one \<open>AsciiPixel\<close>.\<close>

definition toAsciiPixel :: "nrgba \<Rightarrow> AsciiPixel" where
  "toAsciiPixel oldPixel =
     (let grayPixel = grayModel oldPixel
      in case Gray_RGBA grayPixel of (r1, g1, b1, _) \<Rightarrow>
         let charDepth = r1 div 257;
             r1 = r1 div 257;
             g1 = g1 div 257;
             b1 = b1 div 257
         in case NRGBA_RGBA oldPixel of (r2, g2, b2, _) \<Rightarrow>
            let r2 = r2 div 257;
                g2 = g2 div 257;
                b2 = b2 div 257
            in \<lparr>charDepth = charDepth, grayscaleValue = (r1, g1, b1), rgbValue = (r2, g2, b2)\<rparr>)"

text \<open>\<open>for x := b.Min.X; x < b.Max.X; x++ { temp = append(temp, ...) }\<close>\<close>

function rowLoop :: "image \<Rightarrow> int \<Rightarrow> int \<Rightarrow> AsciiPixel list \<Rightarrow> AsciiPixel list" where
  "rowLoop smallImg y x temp =
     (if x < MaxX (Bounds smallImg)
      then rowLoop smallImg y (x + 1) (temp @ [toAsciiPixel (At smallImg x y)])
      else temp)"
  by pat_completeness auto
termination
  by (relation "measure (\<lambda>(smallImg, y, x, temp). nat (MaxX (Bounds smallImg) - x))") auto

declare rowLoop.simps [simp del]

text \<open>\<open>for y := b.Min.Y; y < b.Max.Y; y++ { ...; imgSet = append(imgSet, temp) }\<close>\<close>

function gridLoop :: "image \<Rightarrow> int \<Rightarrow> AsciiPixel list list \<Rightarrow> AsciiPixel list list" where
  "gridLoop smallImg y imgSet =
     (if y < MaxY (Bounds smallImg)
      then gridLoop smallImg (y + 1)
             (imgSet @ [rowLoop smallImg y (MinX (Bounds smallImg)) []])
      else imgSet)"
  by pat_completeness auto
termination
  by (relation "measure (\<lambda>(smallImg, y, imgSet). nat (MaxY (Bounds smallImg) - y))") auto

declare gridLoop.simps [simp del]

section \<open>Mirroring\<close>

text \<open>
  \<open>for i, j := 0, len(row)-1; i < j; i, j = i+1, j-1 { row[i], row[j] = row[j], row[i] }\<close>,
  the in-place swap loop that \<open>reverse\<close> runs on every row and on the slice of rows.  It is
  only ever started at \<open>0\<close> and \<open>len - 1\<close>, so both indices stay inside the slice.
\<close>

function swapLoop :: "'a list \<Rightarrow> int \<Rightarrow> int \<Rightarrow> 'a list" where
  "swapLoop row i j =
     (if i < j
      then swapLoop (row[nat i := row ! nat j, nat j := row ! nat i]) (i + 1) (j - 1)
      else row)"
  by pat_completeness auto
termination
  by (relation "measure (\<lambda>(row, i, j). nat (j - i))") auto

declare swapLoop.simps [simp del]

text \<open>
  \<open>reverse\<close>.  The rows of the grid are built by separate \<open>append\<close> chains, so they share no
  storage and the in-place swaps are the same as the pure updates below.
\<close>

definition reverse :: "'a list list \<Rightarrow> bool \<Rightarrow> bool \<Rightarrow> 'a list list" where
  "reverse imgSet flipX flipY =
     (let imgSet = (if flipX
                    then map (\<lambda>row. swapLoop row 0 (int (length row) - 1)) imgSet
                    else imgSet);
          imgSet = (if flipY
                    then swapLoop imgSet 0 (int (length imgSet) - 1)
                    else imgSet)
      in imgSet)"

section \<open>The dimension resolver\<close>

definition resizeForBraille :: "int \<Rightarrow> int \<Rightarrow> int \<times> int" where
  "resizeForBraille asciiWidth asciiHeight = (asciiWidth * 2, asciiHeight * 4)"

text \<open>
  \<open>int(0.5 * float64(n))\<close>: the product is exact and the conversion back to \<open>int\<close>
  drops the fraction, towards zero.
\<close>

definition halfTruncated :: "int \<Rightarrow> int" where
  "halfTruncated n = (if 0 \<le> n then n div 2 else - ((- n) div 2))"

text \<open>\<open>int(2 * float64(n))\<close>.\<close>

definition doubled :: "int \<Rightarrow> int" where
  "doubled n = 2 * n"

text \<open>\<open>smallImg.Bounds().Max.Y - smallImg.Bounds().Min.Y\<close> and the same for \<open>X\<close>.\<close>

definition heightOf :: "image \<Rightarrow> int" where
  "heightOf smallImg = MaxY (Bounds smallImg) - MinY (Bounds smallImg)"

definition widthOf :: "image \<Rightarrow> int" where
  "widthOf smallImg = MaxX (Bounds smallImg) - MinX (Bounds smallImg)"

text \<open>
  The resampling primitive \<open>imaging.Resize(img, w, h, imaging.Lanczos)\<close> belongs to an
  external library; the resolver is modelled for any such function, passed as the first
  argument \<open>resize\<close>.  The source image is only ever handed to it, so its type is left open.
\<close>

type_synonym 'img resizer = "'img \<Rightarrow> int \<Rightarrow> int \<Rightarrow> image"

text \<open>
  Lines 56 to 150 of \<open>ConvertToAsciiPixels\<close>: the chain of sizing branches.  On success it
  yields the values of \<open>asciiWidth\<close>, \<open>asciiHeight\<close> and \<open>smallImg\<close> at line 150.
\<close>

definition sizeBranches ::
  "'img resizer \<Rightarrow> int \<Rightarrow> int \<Rightarrow> 'img \<Rightarrow> int list \<Rightarrow> int \<Rightarrow> int \<Rightarrow> bool \<Rightarrow> bool
     \<Rightarrow> failure + int \<times> int \<times> image" where
  "sizeBranches resize terminalWidth terminalHeight img dimensions width height full isBraille =
     (if full then
        let asciiWidth = terminalWidth - 1;
            smallImg = resize img asciiWidth 0;
            asciiHeight = heightOf smallImg;
            asciiHeight = halfTruncated asciiHeight;
            (asciiWidth, asciiHeight) =
               (if isBraille then resizeForBraille asciiWidth asciiHeight
                else (asciiWidth, asciiHeight));
            smallImg = resize img asciiWidth asciiHeight
        in Inr (asciiWidth, asciiHeight, smallImg)
      else if (width \<noteq> 0 \<or> height \<noteq> 0) \<and> length dimensions = 0 then
        if width > terminalWidth - 1 then
          Inl (Errorf ''set width must be lower than terminal width'')
        else if width \<noteq> 0 \<and> height = 0 then
          let asciiWidth = width;
              smallImg = resize img asciiWidth 0;
              asciiHeight = heightOf smallImg;
              asciiHeight = halfTruncated asciiHeight;
              asciiHeight = (if asciiHeight = 0 then 1 else asciiHeight);
              (asciiWidth, asciiHeight) =
                 (if isBraille then resizeForBraille asciiWidth asciiHeight
                  else (asciiWidth, asciiHeight));
              smallImg = resize img asciiWidth asciiHeight
          in Inr (asciiWidth, asciiHeight, smallImg)
        else if height \<noteq> 0 \<and> width = 0 then
          let asciiHeight = height;
              smallImg = resize img 0 asciiHeight;
              asciiWidth = widthOf smallImg;
              asciiWidth = doubled asciiWidth
          in if asciiWidth > terminalWidth - 1 then
               Inl (Errorf ''width calculated with aspect ratio exceeds terminal width'')
             else
               let (asciiWidth, asciiHeight) =
                      (if isBraille then resizeForBraille asciiWidth asciiHeight
                       else (asciiWidth, asciiHeight));
                   smallImg = resize img asciiWidth asciiHeight
               in Inr (asciiWidth, asciiHeight, smallImg)
        else
          Inl (Errorf ''both width and height can't be set. Use dimensions instead'')
      else if length dimensions = 0 then
        let asciiHeight = terminalHeight - 1;
            smallImg = resize img 0 asciiHeight;
            asciiWidth = widthOf smallImg;
            asciiWidth = doubled asciiWidth;
            (asciiWidth, asciiHeight) =
               (if asciiWidth \<ge> terminalWidth then
                  let asciiWidth = terminalWidth - 1;
                      smallImg = resize img asciiWidth 0;
                      asciiHeight = heightOf smallImg;
                      asciiHeight = halfTruncated asciiHeight
                  in (asciiWidth, asciiHeight)
                else (asciiWidth, asciiHeight));
            (asciiWidth, asciiHeight) =
               (if isBraille then resizeForBraille asciiWidth asciiHeight
                else (asciiWidth, asciiHeight));
            smallImg = resize img asciiWidth asciiHeight
        in Inr (asciiWidth, asciiHeight, smallImg)
      else
        case dimensions of
          d0 # d1 # _ \<Rightarrow>
            let asciiWidth = d0;
                asciiHeight = d1;
                (asciiWidth, asciiHeight) =
                   (if isBraille then resizeForBraille asciiWidth asciiHeight
                    else (asciiWidth, asciiHeight));
                smallImg = resize img asciiWidth asciiHeight
            in Inr (asciiWidth, asciiHeight, smallImg)
        | _ \<Rightarrow> Inl IndexOutOfRange)"

text \<open>
  Lines 51 to 159: the terminal-size query (its outcome is the argument \<open>terminal\<close>), the
  sizing branches, and the repeated check of passed dimensions against the terminal width.
\<close>

definition resolve ::
  "'img resizer \<Rightarrow> failure + int \<times> int \<Rightarrow> 'img \<Rightarrow> int list \<Rightarrow> int \<Rightarrow> int \<Rightarrow> bool \<Rightarrow> bool
     \<Rightarrow> failure + int \<times> int \<times> image" where
  "resolve resize terminal img dimensions width height full isBraille =
     (case terminal of
        Inl err \<Rightarrow> Inl err
      | Inr (terminalWidth, terminalHeight) \<Rightarrow>
          (case sizeBranches resize terminalWidth terminalHeight img dimensions width height
                  full isBraille of
             Inl err \<Rightarrow> Inl err
           | Inr sized \<Rightarrow>
               if length dimensions > 0 \<and> \<not> full \<and> hd dimensions > terminalWidth - 1
               then Inl (Errorf ''set width must be lower than terminal width'')
               else Inr sized))"

text \<open>The whole function: resolve the size, walk the resized image, mirror if asked.\<close>

definition ConvertToAsciiPixels ::
  "'img resizer \<Rightarrow> failure + int \<times> int \<Rightarrow> 'img \<Rightarrow> int list \<Rightarrow> int \<Rightarrow> int
     \<Rightarrow> bool \<Rightarrow> bool \<Rightarrow> bool \<Rightarrow> bool \<Rightarrow> failure + AsciiPixel list list" where
  "ConvertToAsciiPixels resize terminal img dimensions width height flipX flipY full isBraille =
     (case resolve resize terminal img dimensions width height full isBraille of
        Inl err \<Rightarrow> Inl err
      | Inr (asciiWidth, asciiHeight, smallImg) \<Rightarrow>
          let imgSet = gridLoop smallImg (MinY (Bounds smallImg)) [];
              imgSet = (if flipX \<or> flipY then reverse imgSet flipX flipY else imgSet)
          in Inr imgSet)"

text \<open>The \<open>asciiWidth\<close> and \<open>asciiHeight\<close> of a resolution, without the resized image.\<close>

definition resolvedSize :: "failure + int \<times> int \<times> image \<Rightarrow> failure + int \<times> int" where
  "resolvedSize r = (case r of Inl err \<Rightarrow> Inl err | Inr (w, h, _) \<Rightarrow> Inr (w, h))"

text \<open>The width and height of the image that the final resize produced.\<close>

definition resolvedImageSize :: "failure + int \<times> int \<times> image \<Rightarrow> failure + int \<times> int" where
  "resolvedImageSize r =
     (case r of Inl err \<Rightarrow> Inl err | Inr (_, _, smallImg) \<Rightarrow> Inr (widthOf smallImg, heightOf smallImg))"

section \<open>A resizer for concrete evaluations\<close>

text \<open>
  The theorems below hold for every \<open>resize\<close>.  To run the code on concrete inputs one
  resizer is needed; \<open>imagingResize\<close> follows the size rules of \<open>imaging.Resize\<close> (a negative
  target, a target of \<open>(0, 0)\<close> or an empty source give the empty image; a target of \<open>0\<close> on
  one axis keeps the aspect ratio, \<open>int(math.Max(1.0, math.Floor(x + 0.5)))\<close>, at least one
  pixel).  Its pixel values are nearest-neighbour picks, standing in for the Lanczos
  filter, whose weights are floating-point numbers; on an image of one colour both give
  that colour.
\<close>

definition emptyImage :: image where
  "emptyImage =
     \<lparr>Bounds = \<lparr>MinX = 0, MinY = 0, MaxX = 0, MaxY = 0\<rparr>,
      At = (\<lambda>x y. \<lparr>cR = 0, cG = 0, cB = 0, cA = 0\<rparr>)\<rparr>"

text \<open>\<open>int(math.Max(1.0, math.Floor(a * b / c + 0.5)))\<close> for positive \<open>c\<close>.\<close>

definition aspectDim :: "int \<Rightarrow> int \<Rightarrow> int \<Rightarrow> int" where
  "aspectDim a b c = max 1 ((2 * a * b + c) div (2 * c))"

definition imagingResize :: "image resizer" where
  "imagingResize img width height =
     (if width < 0 \<or> height < 0 then emptyImage
      else if width = 0 \<and> height = 0 then emptyImage
      else
        let srcW = widthOf img;
            srcH = heightOf img
        in if srcW \<le> 0 \<or> srcH \<le> 0 then emptyImage
           else
             let dstW = (if width = 0 then aspectDim height srcW srcH else width);
                 dstH = (if height = 0 then aspectDim dstW srcH srcW else height)
             in \<lparr>Bounds = \<lparr>MinX = 0, MinY = 0, MaxX = dstW, MaxY = dstH\<rparr>,
                 At = (\<lambda>x y. At img (MinX (Bounds img) + x * srcW div dstW)
                                     (MinY (Bounds img) + y * srcH div dstH))\<rparr>)"

text \<open>A source image of one colour, \<open>w\<close> pixels wide and \<open>h\<close> pixels high.\<close>

definition plainImage :: "int \<Rightarrow> int \<Rightarrow> nrgba \<Rightarrow> image" where
  "plainImage w h c =
     \<lparr>Bounds = \<lparr>MinX = 0, MinY = 0, MaxX = w, MaxY = h\<rparr>, At = (\<lambda>x y. c)\<rparr>"

definition black :: nrgba where
  "black = \<lparr>cR = 0, cG = 0, cB = 0, cA = 255\<rparr>"

definition blackPixel :: AsciiPixel where
  "blackPixel = \<lparr>charDepth = 0, grayscaleValue = (0, 0, 0), rgbValue = (0, 0, 0)\<rparr>"

section \<open>Notions of the specification\<close>

text \<open>
  The specification's \<open>round(probe_height * 0.5)\<close>, taken at its word: the nearest integer
  to half the probe height.  It is compared with \<open>halfTruncated\<close>, which is what the
  code computes.
\<close>

definition roundedHalf :: "int \<Rightarrow> int" where
  "roundedHalf n = round (real_of_int n * 0.5)"

text \<open>
  A message names a value when the decimal numeral of the value occurs in it.
  \<open>mentions s m\<close>: the string \<open>s\<close> occurs in \<open>m\<close> as a contiguous piece.
\<close>

fun mentions :: "string \<Rightarrow> string \<Rightarrow> bool" where
  "mentions s [] = (s = [])"
| "mentions s (c # cs) = (take (length s) (c # cs) = s \<or> mentions s cs)"

fun digitsOf :: "nat \<Rightarrow> string" where
  "digitsOf n =
     (if n < 10 then [''0123456789'' ! n]
      else digitsOf (n div 10) @ [''0123456789'' ! (n mod 10)])"

declare digitsOf.simps [simp del]

definition decimal :: "int \<Rightarrow> string" where
  "decimal v = (if v < 0 then CHR ''-'' # digitsOf (nat (- v)) else digitsOf (nat v))"

text \<open>The three messages that \<open>ConvertToAsciiPixels\<close> creates with \<open>fmt.Errorf\<close>.\<close>

definition widthMessage :: string where
  "widthMessage = ''set width must be lower than terminal width''"

definition aspectMessage :: string where
  "aspectMessage = ''width calculated with aspect ratio exceeds terminal width''"

definition bothMessage :: string where
  "bothMessage = ''both width and height can't be set. Use dimensions instead''"

section \<open>The swap loop reverses\<close>

text \<open>
  The swap loop is characterised element by element and then shown to compute \<open>rev\<close>, so
  that \<open>reverse\<close> is a row reversal after a reversal inside every row.
\<close>

lemma length_swapLoop [simp]: "length (swapLoop row i j) = length row"
  by (induction row i j rule: swapLoop.induct) (subst swapLoop.simps, simp)

lemma swapLoop_nth:
  "0 \<le> i \<Longrightarrow> j < int (length row) \<Longrightarrow> k < length row \<Longrightarrow>
   swapLoop row i j ! k =
     (if i \<le> int k \<and> int k \<le> j then row ! nat (i + j - int k) else row ! k)"
proof (induction row i j rule: swapLoop.induct)
  case (1 row i j)
  show ?case
  proof (cases "i < j")
    case False
    then have "swapLoop row i j = row" by (subst swapLoop.simps) simp
    moreover from False have "i \<le> int k \<and> int k \<le> j \<Longrightarrow> nat (i + j - int k) = k" by linarith
    ultimately show ?thesis by auto
  next
    case True
    let ?row' = "row[nat i := row ! nat j, nat j := row ! nat i]"
    have step: "swapLoop row i j = swapLoop ?row' (i + 1) (j - 1)"
      using True by (subst swapLoop.simps) simp
    have ih: "swapLoop ?row' (i + 1) (j - 1) ! k =
          (if i + 1 \<le> int k \<and> int k \<le> j - 1 then ?row' ! nat (i + 1 + (j - 1) - int k) else ?row' ! k)"
      using "1.IH" [OF True] "1.prems" by simp
    have ij: "nat i < length row" "nat j < length row" "nat i \<noteq> nat j"
      using True "1.prems" by auto
    consider (lo) "int k = i" | (hi) "int k = j" | (mid) "i < int k" "int k < j" | (out) "int k < i \<or> j < int k"
      by linarith
    then show ?thesis
    proof cases
      case lo
      then have "k = nat i" by simp
      with ih ij True lo show ?thesis unfolding step by (simp add: nth_list_update)
    next
      case hi
      then have "k = nat j" by simp
      with ih ij True hi show ?thesis unfolding step by (simp add: nth_list_update)
    next
      case mid
      then have "nat (i + j - int k) \<noteq> nat i" "nat (i + j - int k) \<noteq> nat j" using "1.prems" by auto
      with ih ij True mid show ?thesis unfolding step by (simp add: nth_list_update)
    next
      case out
      then have "k \<noteq> nat i" "k \<noteq> nat j" using "1.prems"(1) True by linarith+
      with ih ij True out show ?thesis unfolding step by (auto simp add: nth_list_update)
    qed
  qed
qed

lemma swapLoop_rev: "swapLoop row 0 (int (length row) - 1) = rev row"
proof (rule nth_equalityI)
  show "length (swapLoop row 0 (int (length row) - 1)) = length (rev row)" by simp
next
  fix k assume "k < length (swapLoop row 0 (int (length row) - 1))"
  then have k: "k < length row" by simp
  then have "swapLoop row 0 (int (length row) - 1) ! k = row ! nat (0 + (int (length row) - 1) - int k)"
    by (subst swapLoop_nth) auto
  also have "nat (0 + (int (length row) - 1) - int k) = length row - Suc k" using k by linarith
  finally show "swapLoop row 0 (int (length row) - 1) ! k = rev row ! k"
    using k by (simp add: rev_nth)
qed

lemma reverse_eq:
  "reverse imgSet flipX flipY =
     (if flipY then rev else id) ((if flipX then map rev else id) imgSet)"
  by (simp add: reverse_def swapLoop_rev)

section \<open>Channel arithmetic\<close>













section \<open>Messages and numerals\<close>

lemma mentions_subset: "mentions s m \<Longrightarrow> set s \<subseteq> set m"
proof (induction m)
  case Nil
  then show ?case by simp
next
  case (Cons c cs)
  from Cons.prems have "take (length s) (c # cs) = s \<or> mentions s cs" by simp
  then show ?case
  proof
    assume "take (length s) (c # cs) = s"
    then have "set s = set (take (length s) (c # cs))" by simp
    also have "\<dots> \<subseteq> set (c # cs)" by (rule set_take_subset)
    finally show ?thesis .
  next
    assume "mentions s cs"
    with Cons.IH show ?thesis by auto
  qed
qed

lemma digitsOf_nonempty: "digitsOf n \<noteq> []"
  by (subst digitsOf.simps) simp

lemma digitsOf_last: "last (digitsOf n) \<in> set ''0123456789''"
proof -
  have "n mod 10 < length ''0123456789''" by simp
  then have m: "''0123456789'' ! (n mod 10) \<in> set ''0123456789''" by (rule nth_mem)
  have "last (digitsOf n) = ''0123456789'' ! (n mod 10)"
    by (subst digitsOf.simps) simp
  with m show ?thesis by (simp only:)
qed

lemma decimal_has_digit: "\<exists>c. c \<in> set (decimal v) \<and> c \<in> set ''0123456789''"
proof -
  have d: "last (digitsOf n) \<in> set (digitsOf n)" for n
    using digitsOf_nonempty by (rule last_in_set)
  show ?thesis
  proof (cases "v < 0")
    case True
    then have "set (digitsOf (nat (- v))) \<subseteq> set (decimal v)"
      by (auto simp: decimal_def)
    with d [of "nat (- v)"] digitsOf_last [of "nat (- v)"] show ?thesis by blast
  next
    case False
    then have "decimal v = digitsOf (nat v)" by (simp add: decimal_def)
    with d [of "nat v"] digitsOf_last [of "nat v"] show ?thesis by auto
  qed
qed

lemma no_digit_not_mentioned:
  assumes "set m \<inter> set ''0123456789'' = {}"
  shows "\<not> mentions (decimal v) m"
proof
  assume "mentions (decimal v) m"
  then have "set (decimal v) \<subseteq> set m" by (rule mentions_subset)
  moreover obtain c where "c \<in> set (decimal v)" "c \<in> set ''0123456789''"
    using decimal_has_digit by blast
  ultimately show False using assms by blast
qed

lemma widthMessage_no_digit: "set widthMessage \<inter> set ''0123456789'' = {}"
  by (simp add: widthMessage_def)

lemma aspectMessage_no_digit: "set aspectMessage \<inter> set ''0123456789'' = {}"
  by (simp add: aspectMessage_def)

lemma bothMessage_no_digit: "set bothMessage \<inter> set ''0123456789'' = {}"
  by (simp add: bothMessage_def)

section \<open>The sampling loops\<close>

lemma rowLoop_eq:
  "rowLoop smallImg y x temp =
     temp @ map (\<lambda>x. toAsciiPixel (At smallImg x y)) [x..MaxX (Bounds smallImg) - 1]"
proof (induction smallImg y x temp rule: rowLoop.induct)
  case (1 smallImg y x temp)
  show ?case
  proof (cases "x < MaxX (Bounds smallImg)")
    case True
    then have "[x..MaxX (Bounds smallImg) - 1] = x # [x + 1..MaxX (Bounds smallImg) - 1]"
      by (simp add: upto_rec1)
    with True "1.IH" show ?thesis by (subst rowLoop.simps) simp
  next
    case False
    then show ?thesis by (subst rowLoop.simps) simp
  qed
qed

lemma gridLoop_eq:
  "gridLoop smallImg y imgSet =
     imgSet @ map (\<lambda>y. rowLoop smallImg y (MinX (Bounds smallImg)) []) [y..MaxY (Bounds smallImg) - 1]"
proof (induction smallImg y imgSet rule: gridLoop.induct)
  case (1 smallImg y imgSet)
  show ?case
  proof (cases "y < MaxY (Bounds smallImg)")
    case True
    then have "[y..MaxY (Bounds smallImg) - 1] = y # [y + 1..MaxY (Bounds smallImg) - 1]"
      by (simp add: upto_rec1)
    with True "1.IH" show ?thesis by (subst gridLoop.simps) simp
  next
    case False
    then show ?thesis by (subst gridLoop.simps) simp
  qed
qed

lemma length_rowLoop:
  "length (rowLoop smallImg y (MinX (Bounds smallImg)) []) = nat (widthOf smallImg)"
  by (simp add: rowLoop_eq widthOf_def)

lemma length_gridLoop:
  "length (gridLoop smallImg (MinY (Bounds smallImg)) []) = nat (heightOf smallImg)"
  by (simp add: gridLoop_eq heightOf_def)

lemma rows_gridLoop:
  "row \<in> set (gridLoop smallImg (MinY (Bounds smallImg)) []) \<Longrightarrow> length row = nat (widthOf smallImg)"
  by (auto simp: gridLoop_eq length_rowLoop)

lemma length_reverse: "length (reverse imgSet flipX flipY) = length imgSet"
  by (simp add: reverse_eq)

lemma row_lengths_reverse:
  "length ` set (reverse imgSet flipX flipY) = length ` set imgSet"
  by (simp add: reverse_eq image_image)


section \<open>The branches of the resolver\<close>

text \<open>
  What \<open>resolve\<close> returns in each sizing mode, for any resizer and any terminal size.
  \<open>halfTruncated\<close> is the real product with \<open>0.5\<close> with its fraction dropped.
\<close>

lemma halfTruncated_real:
  "halfTruncated n = (if 0 \<le> n then \<lfloor>real_of_int n * 0.5\<rfloor> else \<lceil>real_of_int n * 0.5\<rceil>)"
proof -
  have fl: "\<lfloor>real_of_int k / 2\<rfloor> = k div 2" for k :: int
    using floor_divide_of_int_eq [of k 2, where 'a = real] by simp
  have "\<lceil>real_of_int n / 2\<rceil> = - \<lfloor>real_of_int (- n) / 2\<rfloor>"
    by (simp add: ceiling_def)
  then have "\<lceil>real_of_int n / 2\<rceil> = - ((- n) div 2)" by (simp only: fl)
  then show ?thesis by (simp add: halfTruncated_def fl)
qed

lemma halfTruncated_nonneg: "0 \<le> n \<Longrightarrow> halfTruncated n = n div 2"
  by (simp add: halfTruncated_def)

lemma resolve_full:
  "resolve resize (Inr (tw, th)) img dimensions width height True isBraille =
     (let w = tw - 1;
          h = halfTruncated (heightOf (resize img w 0));
          (w', h') = (if isBraille then resizeForBraille w h else (w, h))
      in Inr (w', h', resize img w' h'))"
  by (simp add: resolve_def sizeBranches_def Let_def split: prod.splits)

lemma resolve_auto:
  "resolve resize (Inr (tw, th)) img [] 0 0 False isBraille =
     (let probeW = 2 * widthOf (resize img 0 (th - 1));
          (w, h) = (if tw \<le> probeW
                    then (tw - 1, halfTruncated (heightOf (resize img (tw - 1) 0)))
                    else (probeW, th - 1));
          (w', h') = (if isBraille then resizeForBraille w h else (w, h))
      in Inr (w', h', resize img w' h'))"
  by (simp add: resolve_def sizeBranches_def doubled_def Let_def split: prod.splits)

lemma resolve_by_width:
  "w \<noteq> 0 \<Longrightarrow> w \<le> tw - 1 \<Longrightarrow>
   resolve resize (Inr (tw, th)) img [] w 0 False isBraille =
     (let h0 = halfTruncated (heightOf (resize img w 0));
          h = (if h0 = 0 then 1 else h0);
          (w', h') = (if isBraille then resizeForBraille w h else (w, h))
      in Inr (w', h', resize img w' h'))"
  by (simp add: resolve_def sizeBranches_def Let_def split: prod.splits)

text \<open>The clamp of the ByWidth branch: with a probe of non-negative height the height is at least 1.\<close>

lemma by_width_height_clamped:
  "w \<noteq> 0 \<Longrightarrow> w \<le> tw - 1 \<Longrightarrow> 0 \<le> heightOf (resize img w 0) \<Longrightarrow>
   resolvedSize (resolve resize (Inr (tw, th)) img [] w 0 False False)
     = Inr (w, max 1 (heightOf (resize img w 0) div 2))"
  by (auto simp add: resolve_by_width resolvedSize_def halfTruncated_def Let_def)

lemma resolve_width_too_large:
  "tw - 1 < w \<Longrightarrow> w \<noteq> 0 \<or> h \<noteq> 0 \<Longrightarrow>
   resolve resize (Inr (tw, th)) img [] w h False isBraille = Inl (Errorf widthMessage)"
  by (auto simp add: resolve_def sizeBranches_def widthMessage_def)

lemma resolve_both:
  "w \<noteq> 0 \<Longrightarrow> h \<noteq> 0 \<Longrightarrow> w \<le> tw - 1 \<Longrightarrow>
   resolve resize (Inr (tw, th)) img [] w h False isBraille = Inl (Errorf bothMessage)"
  by (simp add: resolve_def sizeBranches_def bothMessage_def)


lemma Convert_Inl:
  "resolve resize terminal img dimensions width height full isBraille = Inl e \<Longrightarrow>
   ConvertToAsciiPixels resize terminal img dimensions width height flipX flipY full isBraille = Inl e"
  by (simp add: ConvertToAsciiPixels_def)

lemma Convert_Inr:
  "resolve resize terminal img dimensions width height full isBraille = Inr (w, h, smallImg) \<Longrightarrow>
   \<exists>grid. ConvertToAsciiPixels resize terminal img dimensions width height flipX flipY full isBraille = Inr grid"
  by (simp add: ConvertToAsciiPixels_def Let_def)

lemma Convert_Inl_iff:
  "ConvertToAsciiPixels resize terminal img dimensions width height flipX flipY full isBraille = Inl e
   \<longleftrightarrow> resolve resize terminal img dimensions width height full isBraille = Inl e"
  by (auto simp add: ConvertToAsciiPixels_def Let_def split: sum.splits)

lemma resolve_messages:
  assumes "resolve resize (Inr (tw, th)) img dimensions width height full isBraille = Inl (Errorf m)"
  shows "m = widthMessage \<or> m = aspectMessage \<or> m = bothMessage"
proof -
  have "sizeBranches resize tw th img dimensions width height full isBraille = Inl (Errorf m)
        \<or> m = widthMessage"
    using assms by (auto simp: resolve_def widthMessage_def split: sum.splits if_splits)
  then show ?thesis
    by (auto simp: sizeBranches_def Let_def widthMessage_def aspectMessage_def bothMessage_def
        split: if_splits list.splits prod.splits)
qed

section \<open>Runs on concrete inputs\<close>

lemmas run_resolver =
  resolvedSize_def resolve_def sizeBranches_def imagingResize_def plainImage_def
  heightOf_def widthOf_def aspectDim_def halfTruncated_def doubled_def resizeForBraille_def
  Let_def

lemma black_2x2_grid:
  "ConvertToAsciiPixels imagingResize (Inr (80, 24)) (plainImage 2 2 black) [2, 2] 0 0
     False False False False
   = Inr [[blackPixel, blackPixel], [blackPixel, blackPixel]]"
  by code_simp

lemma by_width_100_fails:
  "ConvertToAsciiPixels imagingResize (Inr (80, 24)) (plainImage 2 2 black) [] 100 0
     False False False False = Inl (Errorf widthMessage)"
  by (simp add: ConvertToAsciiPixels_def resolve_def sizeBranches_def widthMessage_def)

section \<open>Claims about the dimension resolver\<close>

text \<open>
  Claim C1.  In the Auto mode (no dimensions, width and height both \<open>0\<close>, \<open>full\<close> false)
  the resolver takes the height \<open>terminalHeight - 1\<close> and the width twice the width of the
  probe resize at that height; when that width is at least \<open>terminalWidth\<close> it takes the
  width \<open>terminalWidth - 1\<close> instead and half the height (fraction dropped) of the probe
  resize at that width.  Either way the call succeeds and returns a grid.  For a
  \<open>400 \<times> 200\<close> image on an \<open>80 \<times> 24\<close> terminal the probe at height \<open>23\<close> is \<open>46\<close>
  wide, twice that exceeds the terminal, and the fallback gives \<open>79 \<times> 20\<close>.
\<close>

theorem auto_mode_resolution:
  "resolve resize (Inr (tw, th)) img [] 0 0 False isBraille =
     (let probeW = 2 * widthOf (resize img 0 (th - 1));
          (w, h) = (if tw \<le> probeW
                    then (tw - 1, halfTruncated (heightOf (resize img (tw - 1) 0)))
                    else (probeW, th - 1));
          (w', h') = (if isBraille then resizeForBraille w h else (w, h))
      in Inr (w', h', resize img w' h'))
   \<and> (\<exists>grid. ConvertToAsciiPixels resize (Inr (tw, th)) img [] 0 0 flipX flipY False isBraille
                = Inr grid)
   \<and> widthOf (imagingResize (plainImage 400 200 black) 0 (24 - 1)) = 46
   \<and> resolvedSize (resolve imagingResize (Inr (80, 24)) (plainImage 400 200 black) [] 0 0 False False)
       = Inr (79, 20)"
proof -
  have a: "resolve resize (Inr (tw, th)) img [] 0 0 False isBraille =
     (let probeW = 2 * widthOf (resize img 0 (th - 1));
          (w, h) = (if tw \<le> probeW
                    then (tw - 1, halfTruncated (heightOf (resize img (tw - 1) 0)))
                    else (probeW, th - 1));
          (w', h') = (if isBraille then resizeForBraille w h else (w, h))
      in Inr (w', h', resize img w' h'))"
    by (rule resolve_auto)
  then obtain w' h' smallImg where
    "resolve resize (Inr (tw, th)) img [] 0 0 False isBraille = Inr (w', h', smallImg)"
    by (simp add: Let_def split: prod.splits if_splits)
  then have b: "\<exists>grid. ConvertToAsciiPixels resize (Inr (tw, th)) img [] 0 0 flipX flipY False isBraille
                = Inr grid"
    by (rule Convert_Inr)
  have c: "widthOf (imagingResize (plainImage 400 200 black) 0 (24 - 1)) = 46"
    by (simp add: run_resolver)
  have d: "resolvedSize (resolve imagingResize (Inr (80, 24)) (plainImage 400 200 black) [] 0 0 False False)
       = Inr (79, 20)"
    by (simp add: run_resolver)
  from a b c d show ?thesis by (intro conjI)
qed

text \<open>
  Claim C2.  In the ByWidth mode (width \<open>w \<noteq> 0\<close>, height \<open>0\<close>, no dimensions, \<open>full\<close>
  false) the call succeeds and returns a grid when \<open>w \<le> terminalWidth - 1\<close>, and fails
  with the width error, returning no grid, when \<open>w > terminalWidth - 1\<close>.
\<close>

theorem by_width_bound:
  assumes "w \<noteq> 0"
  shows "(w \<le> tw - 1 \<longrightarrow>
            (\<exists>grid. ConvertToAsciiPixels resize (Inr (tw, th)) img [] w 0 flipX flipY False isBraille
                      = Inr grid))
         \<and> (tw - 1 < w \<longrightarrow>
            ConvertToAsciiPixels resize (Inr (tw, th)) img [] w 0 flipX flipY False isBraille
              = Inl (Errorf widthMessage))"
proof (intro conjI impI)
  assume "w \<le> tw - 1"
  with assms have "\<exists>w' h' smallImg.
      resolve resize (Inr (tw, th)) img [] w 0 False isBraille = Inr (w', h', smallImg)"
    by (simp add: resolve_by_width Let_def split: prod.splits)
  then obtain w' h' smallImg where
    "resolve resize (Inr (tw, th)) img [] w 0 False isBraille = Inr (w', h', smallImg)"
    by blast
  then show "\<exists>grid. ConvertToAsciiPixels resize (Inr (tw, th)) img [] w 0 flipX flipY False isBraille
                = Inr grid"
    by (rule Convert_Inr)
next
  assume "tw - 1 < w"
  with assms have "resolve resize (Inr (tw, th)) img [] w 0 False isBraille = Inl (Errorf widthMessage)"
    by (simp add: resolve_width_too_large)
  then show "ConvertToAsciiPixels resize (Inr (tw, th)) img [] w 0 flipX flipY False isBraille
              = Inl (Errorf widthMessage)"
    by (rule Convert_Inl)
qed

theorem by_width_bound_witness:
  "(\<exists>grid. ConvertToAsciiPixels imagingResize (Inr (80, 24)) (plainImage 2 2 black) [] 40 0
              False False False False = Inr grid)
   \<and> ConvertToAsciiPixels imagingResize (Inr (80, 24)) (plainImage 2 2 black) [] 100 0
        False False False False = Inl (Errorf widthMessage)"
  using by_width_bound [where w = 40 and tw = 80 and th = 24 and resize = imagingResize
          and img = "plainImage 2 2 black" and flipX = False and flipY = False and isBraille = False]
        by_width_bound [where w = 100 and tw = 80 and th = 24 and resize = imagingResize
          and img = "plainImage 2 2 black" and flipX = False and flipY = False and isBraille = False]
  by simp

text \<open>
  Against claim C3 as stated: the height in the Fill mode is not the rounded half of the probe height: a \<open>79 \<times> 3\<close>
  image on an \<open>80 \<times> 24\<close> terminal has a probe of height \<open>3\<close>; the code resolves the
  height \<open>1\<close>, while \<open>round(3 * 0.5)\<close> is \<open>2\<close>.
\<close>

theorem fill_height_rounded_counterexample:
  "resolvedSize (resolve imagingResize (Inr (80, 24)) (plainImage 79 3 black) [] 0 0 True False)
   \<noteq> Inr (80 - 1, roundedHalf (heightOf (imagingResize (plainImage 79 3 black) (80 - 1) 0)))"
  by (simp add: run_resolver roundedHalf_def round_def)

text \<open>
  Claim C3, amended.  In the Fill mode (\<open>full\<close> true, whatever the other sizing inputs)
  the resolver takes the width \<open>terminalWidth - 1\<close> and the height
  \<open>probe_height * 0.5\<close> with the fraction dropped (not rounded), where \<open>probe_height\<close> is
  the height of the aspect-preserving probe resize at that width; with the braille cell
  unit the pair is scaled by \<open>(2, 4)\<close> before the final resize, which then targets
  \<open>(2 * width, 4 * height)\<close>.
\<close>

theorem fill_mode_resolution:
  "resolve resize (Inr (tw, th)) img dimensions width height True isBraille =
     (let w = tw - 1;
          h = halfTruncated (heightOf (resize img w 0));
          (w', h') = (if isBraille then resizeForBraille w h else (w, h))
      in Inr (w', h', resize img w' h'))
   \<and> resizeForBraille w h = (2 * w, 4 * h)
   \<and> halfTruncated n = (if 0 \<le> n then \<lfloor>real_of_int n * 0.5\<rfloor> else \<lceil>real_of_int n * 0.5\<rceil>)"
  using resolve_full [of resize tw th img dimensions width height isBraille]
    halfTruncated_real [of n]
  by (simp add: resizeForBraille_def)

text \<open>
  Claim C4.  Only the ByWidth branch replaces a derived height of \<open>0\<close> by \<open>1\<close>.  In the
  Fill mode and in the Auto fallback a probe of height \<open>1\<close> leaves \<open>asciiHeight = 0\<close>: for
  a \<open>79 \<times> 1\<close> image on an \<open>80 \<times> 24\<close> terminal the Fill mode resolves \<open>(79, 0)\<close>, and
  \<open>(158, 0)\<close> with the braille cell unit, whose final resize is then \<open>2\<close> pixels high;
  for a \<open>400 \<times> 1\<close> image the Auto fallback resolves \<open>(79, 0)\<close>.  The ByWidth branch
  on the \<open>79 \<times> 1\<close> image at width \<open>79\<close> resolves \<open>(79, 1)\<close>, and \<open>(158, 4)\<close> with the
  braille cell unit.
\<close>

theorem unclamped_height_evaluation:
  "resolvedSize (resolve imagingResize (Inr (80, 24)) (plainImage 79 1 black) [] 0 0 True False)
     = Inr (79, 0)
   \<and> resolvedSize (resolve imagingResize (Inr (80, 24)) (plainImage 79 1 black) [] 0 0 True True)
     = Inr (158, 0)
   \<and> resolvedSize (resolve imagingResize (Inr (80, 24)) (plainImage 400 1 black) [] 0 0 False False)
     = Inr (79, 0)
   \<and> resolvedSize (resolve imagingResize (Inr (80, 24)) (plainImage 79 1 black) [] 79 0 False False)
     = Inr (79, 1)
   \<and> resolvedSize (resolve imagingResize (Inr (80, 24)) (plainImage 79 1 black) [] 79 0 False True)
     = Inr (158, 4)
   \<and> resolvedImageSize (resolve imagingResize (Inr (80, 24)) (plainImage 79 1 black) [] 0 0 True True)
     = Inr (158, 2)
   \<and> resolvedImageSize (resolve imagingResize (Inr (80, 24)) (plainImage 79 1 black) [] 79 0 False True)
     = Inr (158, 4)"
  by (simp add: run_resolver resolvedImageSize_def)

text \<open>
  Against claim C5 as stated: with both a width and a height the error is not always the one about both being set:
  width \<open>100\<close> and height \<open>5\<close> on an \<open>80\<close>-column terminal fail the width check, which
  comes first.
\<close>

theorem both_flags_counterexample:
  "ConvertToAsciiPixels imagingResize (Inr (80, 24)) (plainImage 2 2 black) [] 100 5
     False False False False
   \<noteq> Inl (Errorf bothMessage)"
  by (simp add: ConvertToAsciiPixels_def resolve_def sizeBranches_def bothMessage_def)

text \<open>
  Claim C5, amended.  A request with both a width and a height (both non-zero, no
  dimensions, \<open>full\<close> false) always fails: with the error that both width and height
  cannot be set when the width is at most \<open>terminalWidth - 1\<close>, and with the width error
  when the width exceeds \<open>terminalWidth - 1\<close>.
\<close>

theorem both_flags_rejected:
  assumes "width \<noteq> 0" and "height \<noteq> 0"
  shows "ConvertToAsciiPixels resize (Inr (tw, th)) img [] width height flipX flipY False isBraille
         = Inl (Errorf (if tw - 1 < width then widthMessage else bothMessage))"
proof (cases "tw - 1 < width")
  case True
  with assms have "resolve resize (Inr (tw, th)) img [] width height False isBraille
                   = Inl (Errorf widthMessage)"
    by (simp add: resolve_width_too_large)
  with True show ?thesis by (simp add: Convert_Inl)
next
  case False
  with assms have "resolve resize (Inr (tw, th)) img [] width height False isBraille
                   = Inl (Errorf bothMessage)"
    by (simp add: resolve_both)
  with False show ?thesis by (simp add: Convert_Inl)
qed

theorem both_flags_rejected_witness:
  "ConvertToAsciiPixels imagingResize (Inr (80, 24)) (plainImage 2 2 black) [] 40 10
     False False False False = Inl (Errorf bothMessage)
   \<and> ConvertToAsciiPixels imagingResize (Inr (80, 24)) (plainImage 2 2 black) [] 100 5
     False False False False = Inl (Errorf widthMessage)"
  using both_flags_rejected [where width = 40 and height = 10 and tw = 80 and th = 24
          and resize = imagingResize and img = "plainImage 2 2 black"
          and flipX = False and flipY = False and isBraille = False]
        both_flags_rejected [where width = 100 and height = 5 and tw = 80 and th = 24
          and resize = imagingResize and img = "plainImage 2 2 black"
          and flipX = False and flipY = False and isBraille = False]
  by simp

text \<open>
  Against claim C6 as stated: the width error does not name the offending value: ByWidth with \<open>100\<close> on an
  \<open>80\<close>-column terminal fails with a message in which \<open>100\<close> does not occur.
\<close>

theorem message_names_value_counterexample:
  "ConvertToAsciiPixels imagingResize (Inr (80, 24)) (plainImage 2 2 black) [] 100 0
     False False False False = Inl (Errorf widthMessage)
   \<and> \<not> mentions (decimal 100) widthMessage"
  using by_width_100_fails no_digit_not_mentioned [OF widthMessage_no_digit, of 100] by simp

text \<open>
  Claim C6, amended.  Every error that the conversion creates carries one of three fixed
  messages, whatever the sizes involved: the width error (ByWidth, both inputs set, or
  passed dimensions wider than the terminal), the error that the width calculated from
  the height exceeds the terminal, and the error that both width and height are set.
  None of them contains the numeral of any value; ByWidth with \<open>100\<close> on an \<open>80\<close>-column
  terminal fails with the width error.
\<close>

theorem error_messages_fixed:
  assumes "ConvertToAsciiPixels resize (Inr (tw, th)) img dimensions width height
             flipX flipY full isBraille = Inl (Errorf m)"
  shows "(m = widthMessage \<or> m = aspectMessage \<or> m = bothMessage)
         \<and> \<not> mentions (decimal v) m"
proof -
  from assms have "resolve resize (Inr (tw, th)) img dimensions width height full isBraille
                   = Inl (Errorf m)"
    by (simp add: Convert_Inl_iff)
  then have m: "m = widthMessage \<or> m = aspectMessage \<or> m = bothMessage"
    by (rule resolve_messages)
  then have "set m \<inter> set ''0123456789'' = {}"
    using widthMessage_no_digit aspectMessage_no_digit bothMessage_no_digit by blast
  then have "\<not> mentions (decimal v) m" by (rule no_digit_not_mentioned)
  with m show ?thesis by simp
qed

theorem error_messages_fixed_witness:
  "ConvertToAsciiPixels imagingResize (Inr (80, 24)) (plainImage 2 2 black) [] 100 0
     False False False False = Inl (Errorf widthMessage)
   \<and> (widthMessage = widthMessage \<or> widthMessage = aspectMessage \<or> widthMessage = bothMessage)
   \<and> \<not> mentions (decimal 100) widthMessage"
  using by_width_100_fails error_messages_fixed [OF by_width_100_fails, of 100] by simp




section \<open>Claims about the sampler and the grid\<close>


text \<open>
  Claim C9.  Mirroring is an involution and the two flips commute: reversing the columns
  of every row twice, or the order of the rows twice, gives back the grid, and the two
  flips give the same grid in either order, which is also what one call with both flags
  computes.
\<close>

theorem mirror_involution_commute:
  "reverse (reverse imgSet True False) True False = imgSet
   \<and> reverse (reverse imgSet False True) False True = imgSet
   \<and> reverse (reverse imgSet True False) False True = reverse (reverse imgSet False True) True False
   \<and> reverse imgSet True True = reverse (reverse imgSet True False) False True"
  by (simp add: reverse_eq rev_map comp_def)

text \<open>
  Claim C10.  A grid that the conversion returns has one row for each row of the resized
  image and, in every row, one \<open>AsciiPixel\<close> for each column of the resized image; the
  mirror pass, with any flags, keeps the number of rows and the set of row lengths.
\<close>

theorem grid_rectangular:
  assumes "ConvertToAsciiPixels resize terminal img dimensions width height flipX flipY full isBraille = Inr grid"
  shows "(\<exists>w h smallImg.
            resolve resize terminal img dimensions width height full isBraille = Inr (w, h, smallImg)
            \<and> length grid = nat (heightOf smallImg)
            \<and> (\<forall>row \<in> set grid. length row = nat (widthOf smallImg)))
         \<and> length (reverse grid fx fy) = length grid
         \<and> length ` set (reverse grid fx fy) = length ` set grid"
proof -
  from assms obtain w h smallImg where
    r: "resolve resize terminal img dimensions width height full isBraille = Inr (w, h, smallImg)"
    by (auto simp: ConvertToAsciiPixels_def split: sum.splits)
  let ?g = "gridLoop smallImg (MinY (Bounds smallImg)) []"
  from assms r have g: "grid = (if flipX \<or> flipY then reverse ?g flipX flipY else ?g)"
    by (simp add: ConvertToAsciiPixels_def Let_def)
  have len: "length grid = nat (heightOf smallImg)"
    unfolding g by (simp add: length_reverse length_gridLoop)
  have "length ` set grid = length ` set ?g"
    unfolding g by (simp add: row_lengths_reverse)
  then have rows: "\<forall>row \<in> set grid. length row = nat (widthOf smallImg)"
    using rows_gridLoop [of _ smallImg] by (metis imageE imageI)
  from r len rows show ?thesis
    by (auto simp: length_reverse row_lengths_reverse)
qed

theorem grid_rectangular_witness:
  "ConvertToAsciiPixels imagingResize (Inr (80, 24)) (plainImage 2 2 black) [2, 2] 0 0
     False False False False
   = Inr [[blackPixel, blackPixel], [blackPixel, blackPixel]]
   \<and> (\<exists>w h smallImg.
        resolve imagingResize (Inr (80, 24)) (plainImage 2 2 black) [2, 2] 0 0 False False
          = Inr (w, h, smallImg)
        \<and> length [[blackPixel, blackPixel], [blackPixel, blackPixel]] = nat (heightOf smallImg)
        \<and> (\<forall>row \<in> set [[blackPixel, blackPixel], [blackPixel, blackPixel]].
              length row = nat (widthOf smallImg)))
   \<and> length (reverse [[blackPixel, blackPixel], [blackPixel, blackPixel]] True True) = 2"
  using black_2x2_grid grid_rectangular [OF black_2x2_grid, of True True] by simp

end
